theory Spec2Isabelle
  imports Complex_Main
begin

section \<open>Python values, exceptions and numbers\<close>

text \<open>
  Exceptions of the banner pipeline. The handler of \<^verbatim>\<open>generate_banner\<close> tells a
  \<^verbatim>\<open>ValueError\<close> (answered with status 400 and the message) from every other
  exception (answered with status 500), so the message is kept for \<^verbatim>\<open>ValueError\<close> only.
\<close>

datatype exn = ValueError string | TypeError | OtherException

text \<open>
  A Python float is a double: a real number of the binary64 format. Every arithmetic
  operation on floats gives the exact result rounded to the nearest double, ties to the
  even significand. The exponent of the last place of a double near \<open>x\<close> is
  \<open>\<lfloor>log 2 \<bar>x\<bar>\<rfloor> - 52\<close>, and \<open>- 1074\<close> in the subnormal range. (Overflow is
  not part of the model: the numbers of the pipeline stay far below \<open>2 ^ 1024\<close>.)
\<close>

definition round_half_even :: "real \<Rightarrow> int" where
  "round_half_even m =
     (let n = \<lfloor>m\<rfloor>; r = m - of_int n in
      if r < 1 / 2 then n else if 1 / 2 < r then n + 1 else if even n then n else n + 1)"

definition pow2 :: "int \<Rightarrow> real" where
  "pow2 z = (if 0 \<le> z then 2 ^ nat z else 1 / 2 ^ nat (- z))"

definition double_exponent :: "real \<Rightarrow> int" where
  "double_exponent x = max \<lfloor>log 2 \<bar>x\<bar>\<rfloor> (- 1022) - 52"

definition to_double :: "real \<Rightarrow> real" where
  "to_double x =
     (if x = 0 then 0
      else of_int (round_half_even (x / pow2 (double_exponent x))) * pow2 (double_exponent x))"

text \<open>\<^verbatim>\<open>int(x)\<close> on a float truncates toward zero.\<close>

definition py_int :: "real \<Rightarrow> int" where
  "py_int x = (if 0 \<le> x then \<lfloor>x\<rfloor> else \<lceil>x\<rceil>)"

text \<open>Conversion of a Python integer to one byte of an ink or a band (Pillow's CLIP8).\<close>

definition clip8 :: "int \<Rightarrow> nat" where
  "clip8 v = (if v < 0 then 0 else if 255 < v then 255 else nat v)"

section \<open>Hex colours\<close>

definition hex_digit :: "char \<Rightarrow> nat option" where
  "hex_digit c =
     (let n = (of_char c :: nat) in
      if 48 \<le> n \<and> n \<le> 57 then Some (n - 48)
      else if 97 \<le> n \<and> n \<le> 102 then Some (n - 87)
      else if 65 \<le> n \<and> n \<le> 70 then Some (n - 55)
      else None)"

text \<open>
  \<^verbatim>\<open>int(s, 16)\<close> on the slices the code takes (at most two characters). One or two
  hexadecimal digits give their value; every other slice is a \<^verbatim>\<open>ValueError\<close> here.
  (Python also reads a sign, surrounding blanks or a bare prefix digit in a two-character
  slice; such colours are outside the hex format the docstrings name, and no statement
  below is about them.)
\<close>

fun int16 :: "string \<Rightarrow> exn + nat" where
  "int16 [a] =
     (case hex_digit a of None \<Rightarrow> Inl (ValueError ''invalid literal for int() with base 16'')
      | Some x \<Rightarrow> Inr x)"
| "int16 [a, b] =
     (case hex_digit a of None \<Rightarrow> Inl (ValueError ''invalid literal for int() with base 16'')
      | Some x \<Rightarrow>
        (case hex_digit b of None \<Rightarrow> Inl (ValueError ''invalid literal for int() with base 16'')
         | Some y \<Rightarrow> Inr (16 * x + y)))"
| "int16 s = Inl (ValueError ''invalid literal for int() with base 16'')"

text \<open>The slice \<^verbatim>\<open>color[i:i+2]\<close>.\<close>

definition slice2 :: "string \<Rightarrow> nat \<Rightarrow> string" where
  "slice2 color i = take 2 (drop i color)"

text \<open>\<^verbatim>\<open>tuple(int(color[i:i+2], 16) for i in (1, 3, 5))\<close>\<close>

definition hex_to_rgb :: "string \<Rightarrow> exn + (nat \<times> nat \<times> nat)" where
  "hex_to_rgb color =
     (case int16 (slice2 color 1) of Inl e \<Rightarrow> Inl e
      | Inr r \<Rightarrow>
        (case int16 (slice2 color 3) of Inl e \<Rightarrow> Inl e
         | Inr g \<Rightarrow>
           (case int16 (slice2 color 5) of Inl e \<Rightarrow> Inl e
            | Inr b \<Rightarrow> Inr (r, g, b))))"

section \<open>Colour interpolation\<close>

text \<open>
  One channel of the gradient loop of \<^verbatim>\<open>apply_gradient\<close>:
  \<^verbatim>\<open>int(start_rgb[0] * (1 - factor) + end_rgb[0] * factor)\<close>
  The difference, the two products and the sum are float operations, each rounded.
\<close>

definition gradient_channel :: "nat \<Rightarrow> nat \<Rightarrow> real \<Rightarrow> int" where
  "gradient_channel c1 c2 factor =
     py_int (to_double (to_double (of_nat c1 * to_double (1 - factor))
                        + to_double (of_nat c2 * factor)))"

text \<open>
  One channel of \<^verbatim>\<open>_interpolate_color\<close> in the helpers:
  \<^verbatim>\<open>int(r1 + factor * (r2 - r1))\<close>
  The difference is one of integers and exact; the product and the sum are rounded.
\<close>

definition interpolate_channel :: "nat \<Rightarrow> nat \<Rightarrow> real \<Rightarrow> int" where
  "interpolate_channel c1 c2 factor =
     py_int (to_double (of_nat c1 + to_double (factor * (of_nat c2 - of_nat c1))))"

text \<open>The format \<^verbatim>\<open>{r:02x}\<close>: lower-case hexadecimal, padded with zeros to two places.\<close>

definition hex_char :: "nat \<Rightarrow> char" where
  "hex_char d = (if d < 10 then char_of (48 + d) else char_of (87 + d))"

function hex_digits :: "nat \<Rightarrow> string" where
  "hex_digits n = (if n < 16 then [hex_char n] else hex_digits (n div 16) @ [hex_char (n mod 16)])"
  by pat_completeness auto
termination
  by (relation "measure id") auto

declare hex_digits.simps [simp del]

definition format_02x :: "int \<Rightarrow> string" where
  "format_02x v =
     (if 0 \<le> v then (let s = hex_digits (nat v) in replicate (2 - length s) CHR ''0'' @ s)
      else (let s = hex_digits (nat (- v)) in CHR ''-'' # replicate (1 - length s) CHR ''0'' @ s))"

definition interpolate_color :: "string \<Rightarrow> string \<Rightarrow> real \<Rightarrow> exn + string" where
  "interpolate_color color1 color2 factor =
     (case hex_to_rgb color1 of Inl e \<Rightarrow> Inl e
      | Inr (r1, g1, b1) \<Rightarrow>
        (case hex_to_rgb color2 of Inl e \<Rightarrow> Inl e
         | Inr (r2, g2, b2) \<Rightarrow>
           Inr (CHR ''#'' # format_02x (interpolate_channel r1 r2 factor)
                  @ format_02x (interpolate_channel g1 g2 factor)
                  @ format_02x (interpolate_channel b1 b2 factor))))"

text \<open>
  The interpolation as the specification words it, in exact arithmetic: each channel is
  \<open>round (c1 * (1 - factor) + c2 * factor)\<close>, clamped to the byte range.
\<close>

definition spec_interpolate_channel :: "nat \<Rightarrow> nat \<Rightarrow> real \<Rightarrow> int" where
  "spec_interpolate_channel c1 c2 factor =
     max 0 (min 255 (round (of_nat c1 * (1 - factor) + of_nat c2 * factor)))"

section \<open>Sequencing of calls that may raise\<close>

fun bind_exn :: "exn + 'a \<Rightarrow> ('a \<Rightarrow> exn + 'b) \<Rightarrow> exn + 'b" where
  "bind_exn (Inl e) f = Inl e"
| "bind_exn (Inr v) f = f v"

section \<open>Images\<close>

text \<open>
  An image is its size \<open>(width, height)\<close> and its pixels in row-major order: the pixel
  at \<open>(x, y)\<close> has index \<open>y * width + x\<close>. Mode RGBA has four bytes a pixel, mode L one.
\<close>

type_synonym rgba = "nat \<times> nat \<times> nat \<times> nat"

record 'p raster =
  isize :: "nat \<times> nat"
  idata :: "'p list"

type_synonym image = "rgba raster"
type_synonym limage = "nat raster"

definition wf_image :: "'p raster \<Rightarrow> bool" where
  "wf_image im = (length (idata im) = fst (isize im) * snd (isize im))"

text \<open>\<^verbatim>\<open>Image.new(mode, size, color)\<close>\<close>

definition Image_new :: "nat \<times> nat \<Rightarrow> 'p \<Rightarrow> 'p raster" where
  "Image_new sz color = \<lparr>isize = sz, idata = replicate (fst sz * snd sz) color\<rparr>"

subsection \<open>Pillow's alpha compositing\<close>

text \<open>
  \<^verbatim>\<open>Image.alpha_composite(im1, im2)\<close> lays \<^verbatim>\<open>im2\<close> (the source, on top) over
  \<^verbatim>\<open>im1\<close> (the destination, below). The pixel kernel is Pillow's integer one with seven
  bits of extra precision; on bytes none of its 32-bit intermediate values overflows.
\<close>

definition SHIFTFORDIV255 :: "nat \<Rightarrow> nat" where
  "SHIFTFORDIV255 a = ((a div 256) + a) div 256"

fun composite_pixel :: "rgba \<Rightarrow> rgba \<Rightarrow> rgba" where
  "composite_pixel (dr, dg, db, da) (sr, sg, sb, sa) =
     (if sa = 0 then (dr, dg, db, da)
      else
        (let blend = da * (255 - sa);
             outa255 = sa * 255 + blend;
             coef1 = sa * 255 * 255 * 128 div outa255;
             coef2 = 255 * 128 - coef1
         in (SHIFTFORDIV255 (sr * coef1 + dr * coef2 + 128 * 128) div 128,
             SHIFTFORDIV255 (sg * coef1 + dg * coef2 + 128 * 128) div 128,
             SHIFTFORDIV255 (sb * coef1 + db * coef2 + 128 * 128) div 128,
             SHIFTFORDIV255 (outa255 + 128))))"

definition alpha_composite :: "image \<Rightarrow> image \<Rightarrow> exn + image" where
  "alpha_composite im1 im2 =
     (if isize im1 = isize im2
      then Inr \<lparr>isize = isize im1, idata = map2 composite_pixel (idata im1) (idata im2)\<rparr>
      else Inl (ValueError ''images do not match''))"

subsection \<open>Other Pillow operations the transformer uses\<close>

text \<open>\<^verbatim>\<open>convert('RGBA')\<close> of a mode-L image, and \<^verbatim>\<open>putalpha\<close> with one integer.\<close>

definition convert_RGBA :: "limage \<Rightarrow> image" where
  "convert_RGBA im = \<lparr>isize = isize im, idata = map (\<lambda>l. (l, l, l, 255)) (idata im)\<rparr>"

definition putalpha :: "int \<Rightarrow> image \<Rightarrow> image" where
  "putalpha a im = im\<lparr>idata := map (\<lambda>(r, g, b, _). (r, g, b, clip8 a)) (idata im)\<rparr>"

text \<open>
  \<^verbatim>\<open>ImageDraw.rectangle(xy, fill=ink)\<close>: every pixel of the image with
  \<open>x0 \<le> x \<le> x1\<close> and \<open>y0 \<le> y \<le> y1\<close> becomes the ink.
\<close>

definition rectangle_fill :: "int \<times> int \<Rightarrow> int \<times> int \<Rightarrow> rgba \<Rightarrow> image \<Rightarrow> image" where
  "rectangle_fill p0 p1 ink im =
     im\<lparr>idata :=
          map (\<lambda>(i, p).
                 let x = int (i mod fst (isize im)); y = int (i div fst (isize im))
                 in if fst p0 \<le> x \<and> x \<le> fst p1 \<and> snd p0 \<le> y \<and> y \<le> snd p1 then ink else p)
            (enumerate 0 (idata im))\<rparr>"

text \<open>
  \<^verbatim>\<open>dst.paste(src, offset)\<close>: the pixels of \<^verbatim>\<open>src\<close> replace those of \<^verbatim>\<open>dst\<close>
  from the offset on; what falls outside \<^verbatim>\<open>dst\<close> is dropped.
\<close>

definition paste :: "image \<Rightarrow> image \<Rightarrow> int \<times> int \<Rightarrow> image" where
  "paste dst src offset =
     dst\<lparr>idata :=
          map (\<lambda>(i, p).
                 let sx = int (i mod fst (isize dst)) - fst offset;
                     sy = int (i div fst (isize dst)) - snd offset
                 in if 0 \<le> sx \<and> sx < int (fst (isize src)) \<and> 0 \<le> sy \<and> sy < int (snd (isize src))
                    then idata src ! (nat sy * fst (isize src) + nat sx) else p)
            (enumerate 0 (idata dst))\<rparr>"

section \<open>Style plans\<close>

text \<open>
  Values of the preset dictionaries: strings, integers, floats and pairs of integers.
  A dictionary keeps its insertion order, so it is a list of keys and values. A float
  literal such as \<^verbatim>\<open>0.3\<close> is the double nearest to it.
\<close>

datatype pval = PStr string | PInt int | PNum real | PPair int int

type_synonym pdict = "(string \<times> pval) list"

text \<open>
  The dictionary a preset returns. The pipeline only asks whether each of the four keys
  is present, so the dictionary is a record of four optional entries.
\<close>

record plan =
  gradient :: "pdict option"
  texture :: "pdict option"
  overlay :: "pdict option"
  effects :: "(string \<times> pdict) list option"

definition modern :: plan where
  "modern =
     \<lparr>gradient = Some [(''start_color'', PStr ''#4361ee''), (''end_color'', PStr ''#3f37c9''),
                       (''direction'', PStr ''horizontal'')],
      texture = None,
      overlay = None,
      effects = Some [(''shadow'', [(''offset'', PPair 5 5), (''blur_radius'', PInt 3)]),
                      (''border'', [(''width'', PInt 0)])]\<rparr>"

definition vintage :: plan where
  "vintage =
     \<lparr>gradient = None,
      texture = Some [(''type'', PStr ''paper''), (''opacity'', PNum (to_double (2 / 10)))],
      overlay = Some [(''color'', PStr ''#f4a261''), (''opacity'', PNum (to_double (3 / 10)))],
      effects = Some [(''border'', [(''width'', PInt 5), (''color'', PStr ''#e76f51'')])]\<rparr>"

definition minimalist :: plan where
  "minimalist =
     \<lparr>gradient = Some [(''start_color'', PStr ''#ffffff''), (''end_color'', PStr ''#f8f9fa''),
                       (''direction'', PStr ''vertical'')],
      texture = None,
      overlay = None,
      effects = Some [(''border'', [(''width'', PInt 2), (''color'', PStr ''#2b2d42'')])]\<rparr>"

definition bold :: plan where
  "bold =
     \<lparr>gradient = Some [(''start_color'', PStr ''#2b2d42''), (''end_color'', PStr ''#8d99ae''),
                       (''direction'', PStr ''horizontal'')],
      texture = None,
      overlay = None,
      effects = Some [(''glow'', [(''spread'', PInt 20), (''intensity'', PNum (to_double (6 / 10)))])]\<rparr>"

text \<open>
  What an attribute of the class \<^verbatim>\<open>StylePresets\<close> can be: a string (the docstring), one
  of the static methods, or an attribute that Python itself gives the class, known by what
  calling it without arguments does.
\<close>

datatype pyobj = PyStr string | StaticMethod plan | Builtin "exn + plan"

fun call_obj :: "pyobj \<Rightarrow> exn + plan" where
  "call_obj (PyStr s) = Inl TypeError"
| "call_obj (StaticMethod p) = Inr p"
| "call_obj (Builtin r) = r"

text \<open>
  The names the body of the class binds: its docstring (its words, without the line
  breaks around them) and the four presets.
\<close>

definition StylePresets_dict :: "string \<Rightarrow> pyobj option" where
  "StylePresets_dict name =
     (if name = ''__doc__'' then Some (PyStr ''Predefined style presets for banners'')
      else if name = ''modern'' then Some (StaticMethod modern)
      else if name = ''vintage'' then Some (StaticMethod vintage)
      else if name = ''minimalist'' then Some (StaticMethod minimalist)
      else if name = ''bold'' then Some (StaticMethod bold)
      else None)"

section \<open>What lies outside the repository\<close>

text \<open>
  Pillow's Gaussian blur (on RGBA and on L images), its brightness enhancer and its
  outlined rectangle are taken as they come, each free to raise; so are the draws of the
  random generators (the \<open>k\<close>-th draw of a call) and the attributes every Python class
  has without its body binding them.
\<close>

record extern =
  GaussianBlur :: "int \<Rightarrow> image \<Rightarrow> exn + image"
  GaussianBlur_L :: "int \<Rightarrow> limage \<Rightarrow> exn + limage"
  Brightness_enhance :: "real \<Rightarrow> image \<Rightarrow> exn + image"
  rectangle_outline :: "int \<times> int \<Rightarrow> int \<times> int \<Rightarrow> rgba \<Rightarrow> int \<Rightarrow> image \<Rightarrow> exn + image"
  np_randint :: "nat \<Rightarrow> nat"
  np_normal :: "nat \<Rightarrow> real"
  random_randint :: "nat \<Rightarrow> nat"
  builtin_attr :: "string \<Rightarrow> pyobj option"

text \<open>\<^verbatim>\<open>getattr(StylePresets, style, default)\<close>\<close>

definition getattr_StylePresets :: "extern \<Rightarrow> string \<Rightarrow> pyobj \<Rightarrow> pyobj" where
  "getattr_StylePresets ext name dflt =
     (case StylePresets_dict name of Some v \<Rightarrow> v
      | None \<Rightarrow> (case builtin_attr ext name of Some v \<Rightarrow> v | None \<Rightarrow> dflt))"

section \<open>numpy's linspace\<close>

text \<open>
  \<^verbatim>\<open>np.linspace(start, stop, num)\<close> with its end point. The step is the rounded
  quotient \<open>(stop - start) / (num - 1)\<close>, computed only when \<open>num - 1\<close> is positive;
  sample \<open>i\<close> is the rounded product of \<open>i\<close> and the step, plus \<open>start\<close>. (A step that
  rounds to zero makes numpy divide each index first.) A single sample is \<open>start\<close>, and
  the last of several is set to \<open>stop\<close>.
\<close>

definition linspace :: "real \<Rightarrow> real \<Rightarrow> nat \<Rightarrow> real list" where
  "linspace start stop num =
     (let d = num - 1; delta = to_double (stop - start);
          y = (if 0 < d
               then (let step = to_double (delta / of_nat d) in
                     if step = 0
                     then map (\<lambda>i. to_double (to_double (of_nat i / of_nat d) * delta)) [0..<num]
                     else map (\<lambda>i. to_double (of_nat i * step)) [0..<num])
               else map (\<lambda>i. to_double (of_nat i * delta)) [0..<num]);
          y' = map (\<lambda>v. to_double (v + start)) y
      in if 1 < num then y'[num - 1 := stop] else y')"

section \<open>The transformer\<close>

record transformer =
  self_image :: image
  self_width :: nat
  self_height :: nat

definition BannerTransformer :: "image \<Rightarrow> transformer" where
  "BannerTransformer im =
     \<lparr>self_image = im, self_width = fst (isize im), self_height = snd (isize im)\<rparr>"

subsection \<open>Gradient\<close>

text \<open>
  The array \<^verbatim>\<open>gradient[y, x]\<close>: the tiled samples run along the columns when the
  direction is \<^verbatim>\<open>'horizontal'\<close> and along the rows for every other direction.
\<close>

definition gradient_factor :: "nat \<Rightarrow> nat \<Rightarrow> string \<Rightarrow> nat \<Rightarrow> nat \<Rightarrow> real" where
  "gradient_factor w h direction y x =
     (if direction = ''horizontal'' then linspace 0 1 w ! x else linspace 0 1 h ! y)"

text \<open>
  The loop nest over \<open>x\<close> and \<open>y\<close> draws each point of the new image exactly once, so
  the gradient image is the table of its points.
\<close>

definition gradient_image ::
  "nat \<Rightarrow> nat \<Rightarrow> nat \<times> nat \<times> nat \<Rightarrow> nat \<times> nat \<times> nat \<Rightarrow> string \<Rightarrow> image" where
  "gradient_image w h start_rgb end_rgb direction =
     \<lparr>isize = (w, h),
      idata =
        map (\<lambda>i. let factor = gradient_factor w h direction (i div w) (i mod w)
                  in (clip8 (gradient_channel (fst start_rgb) (fst end_rgb) factor),
                      clip8 (gradient_channel (fst (snd start_rgb)) (fst (snd end_rgb)) factor),
                      clip8 (gradient_channel (snd (snd start_rgb)) (snd (snd end_rgb)) factor),
                      255))
          [0..<w * h]\<rparr>"

definition apply_gradient :: "transformer \<Rightarrow> string \<Rightarrow> string \<Rightarrow> string \<Rightarrow> exn + transformer" where
  "apply_gradient t start_color end_color direction =
     bind_exn (hex_to_rgb start_color) (\<lambda>start_rgb.
     bind_exn (hex_to_rgb end_color) (\<lambda>end_rgb.
     bind_exn (alpha_composite
                 (gradient_image (self_width t) (self_height t) start_rgb end_rgb direction)
                 (self_image t)) (\<lambda>im.
     Inr (t\<lparr>self_image := im\<rparr>))))"

text \<open>
  The gradient stage as the specification words it: the gradient buffer is composited
  over the canvas, that is, the buffer is the top operand.
\<close>

definition spec_apply_gradient ::
  "transformer \<Rightarrow> string \<Rightarrow> string \<Rightarrow> string \<Rightarrow> exn + transformer" where
  "spec_apply_gradient t start_color end_color direction =
     bind_exn (hex_to_rgb start_color) (\<lambda>start_rgb.
     bind_exn (hex_to_rgb end_color) (\<lambda>end_rgb.
     bind_exn (alpha_composite (self_image t)
                 (gradient_image (self_width t) (self_height t) start_rgb end_rgb direction))
       (\<lambda>im.
     Inr (t\<lparr>self_image := im\<rparr>))))"

subsection \<open>Texture\<close>

text \<open>
  \<^verbatim>\<open>np.random.randint(0, 255, (h, w))\<close> draws from 0 to 254;
  \<^verbatim>\<open>np.random.normal(127, 20, (h, w))\<close> is clipped to the byte range and truncated;
  \<^verbatim>\<open>random.randint(200, 255)\<close> draws from 200 to 255, column after column.
  Each draw of the generator is brought into the range of its call.
\<close>

definition noise_texture :: "extern \<Rightarrow> nat \<Rightarrow> nat \<Rightarrow> limage" where
  "noise_texture ext w h =
     \<lparr>isize = (w, h), idata = map (\<lambda>k. np_randint ext k mod 255) [0..<h * w]\<rparr>"

definition grain_texture :: "extern \<Rightarrow> nat \<Rightarrow> nat \<Rightarrow> limage" where
  "grain_texture ext w h =
     \<lparr>isize = (w, h),
      idata = map (\<lambda>k. nat (py_int (max 0 (min 255 (np_normal ext k))))) [0..<h * w]\<rparr>"

definition create_paper_texture :: "extern \<Rightarrow> transformer \<Rightarrow> exn + limage" where
  "create_paper_texture ext t =
     GaussianBlur_L ext 1
       \<lparr>isize = (self_width t, self_height t),
        idata =
          map (\<lambda>i. 200 + random_randint ext ((i mod self_width t) * self_height t
                                               + i div self_width t) mod 56)
            [0..<self_width t * self_height t]\<rparr>"

text \<open>
  The texture starts as a new RGBA image, all bytes zero, and stays so when the kind is
  none of the three; \<^verbatim>\<open>convert('RGBA')\<close> of that image is a copy of it.
\<close>

definition make_texture :: "extern \<Rightarrow> transformer \<Rightarrow> string \<Rightarrow> exn + image" where
  "make_texture ext t texture_type =
     (if texture_type = ''noise''
      then Inr (convert_RGBA (noise_texture ext (self_width t) (self_height t)))
      else if texture_type = ''grain''
      then Inr (convert_RGBA (grain_texture ext (self_width t) (self_height t)))
      else if texture_type = ''paper''
      then bind_exn (create_paper_texture ext t) (\<lambda>p. Inr (convert_RGBA p))
      else Inr (Image_new (self_width t, self_height t) (0, 0, 0, 0)))"

definition apply_texture :: "extern \<Rightarrow> transformer \<Rightarrow> string \<Rightarrow> real \<Rightarrow> exn + transformer" where
  "apply_texture ext t texture_type opacity =
     bind_exn (make_texture ext t texture_type) (\<lambda>tex.
     bind_exn (alpha_composite (self_image t)
                 (putalpha (py_int (to_double (255 * opacity))) tex)) (\<lambda>im.
     Inr (t\<lparr>self_image := im\<rparr>)))"

subsection \<open>Overlay\<close>

definition overlay_image :: "nat \<Rightarrow> nat \<Rightarrow> nat \<times> nat \<times> nat \<Rightarrow> real \<Rightarrow> image" where
  "overlay_image w h rgb opacity =
     rectangle_fill (0, 0) (int w, int h)
       (clip8 (int (fst rgb)), clip8 (int (fst (snd rgb))), clip8 (int (snd (snd rgb))),
        clip8 (py_int (to_double (255 * opacity))))
       (Image_new (w, h) (0, 0, 0, 0))"

definition apply_overlay :: "transformer \<Rightarrow> string \<Rightarrow> real \<Rightarrow> exn + transformer" where
  "apply_overlay t color opacity =
     bind_exn (hex_to_rgb color) (\<lambda>rgb.
     bind_exn (alpha_composite (self_image t)
                 (overlay_image (self_width t) (self_height t) rgb opacity)) (\<lambda>im.
     Inr (t\<lparr>self_image := im\<rparr>)))"

subsection \<open>Effects\<close>

definition apply_blur :: "extern \<Rightarrow> transformer \<Rightarrow> int \<Rightarrow> exn + transformer" where
  "apply_blur ext t radius =
     bind_exn (GaussianBlur ext radius (self_image t)) (\<lambda>im. Inr (t\<lparr>self_image := im\<rparr>))"

definition recolor :: "nat \<times> nat \<times> nat \<Rightarrow> image \<Rightarrow> image" where
  "recolor rgb im =
     im\<lparr>idata := map (\<lambda>(_, _, _, a). (fst rgb, fst (snd rgb), snd (snd rgb), a)) (idata im)\<rparr>"

definition apply_drop_shadow ::
  "extern \<Rightarrow> transformer \<Rightarrow> int \<times> int \<Rightarrow> string \<Rightarrow> int \<Rightarrow> exn + transformer" where
  "apply_drop_shadow ext t offset shadow_color blur_radius =
     bind_exn (GaussianBlur ext blur_radius
                 (paste (Image_new (isize (self_image t)) (0, 0, 0, 0)) (self_image t) offset))
       (\<lambda>shadow.
     bind_exn (hex_to_rgb shadow_color) (\<lambda>rgb.
     bind_exn (alpha_composite (Image_new (isize (self_image t)) (0, 0, 0, 0))
                 (recolor rgb shadow)) (\<lambda>final_image.
     bind_exn (alpha_composite final_image (self_image t)) (\<lambda>im.
     Inr (t\<lparr>self_image := im\<rparr>)))))"

definition apply_border :: "extern \<Rightarrow> transformer \<Rightarrow> int \<Rightarrow> string \<Rightarrow> exn + transformer" where
  "apply_border ext t width color =
     bind_exn (hex_to_rgb color) (\<lambda>rgb.
     bind_exn (rectangle_outline ext (0, 0) (int (self_width t) - 1, int (self_height t) - 1)
                 (clip8 (int (fst rgb)), clip8 (int (fst (snd rgb))), clip8 (int (snd (snd rgb))),
                  255)
                 width (self_image t)) (\<lambda>im.
     Inr (t\<lparr>self_image := im\<rparr>)))"

definition apply_glow :: "extern \<Rightarrow> transformer \<Rightarrow> int \<Rightarrow> real \<Rightarrow> exn + transformer" where
  "apply_glow ext t spread intensity =
     bind_exn (GaussianBlur ext spread (self_image t)) (\<lambda>blurred.
     bind_exn (Brightness_enhance ext intensity blurred) (\<lambda>glow.
     bind_exn (alpha_composite glow (self_image t)) (\<lambda>im.
     Inr (t\<lparr>self_image := im\<rparr>))))"

subsection \<open>Reading an argument out of a dictionary\<close>

text \<open>
  The methods are annotated with the types of their arguments. A value of another type
  than the annotation names is not followed further: the model raises \<^verbatim>\<open>TypeError\<close>.
\<close>

fun as_str :: "pval \<Rightarrow> exn + string" where
  "as_str (PStr s) = Inr s"
| "as_str v = Inl TypeError"

fun as_int :: "pval \<Rightarrow> exn + int" where
  "as_int (PInt n) = Inr n"
| "as_int v = Inl TypeError"

fun as_num :: "pval \<Rightarrow> exn + real" where
  "as_num (PNum q) = Inr q"
| "as_num (PInt n) = Inr (of_int n)"
| "as_num v = Inl TypeError"

fun as_pair :: "pval \<Rightarrow> exn + int \<times> int" where
  "as_pair (PPair a b) = Inr (a, b)"
| "as_pair v = Inl TypeError"

text \<open>\<^verbatim>\<open>params.get(key, dflt)\<close>\<close>

definition dict_get :: "pdict \<Rightarrow> string \<Rightarrow> pval \<Rightarrow> pval" where
  "dict_get params key dflt = (case map_of params key of None \<Rightarrow> dflt | Some v \<Rightarrow> v)"

text \<open>
  A call that unpacks a dictionary \<^verbatim>\<open>kw\<close> into keyword arguments raises
  \<^verbatim>\<open>TypeError\<close> when a key of \<^verbatim>\<open>kw\<close> names no parameter of the method, and when
  a parameter without default gets no value.
\<close>

definition unexpected_keyword :: "string list \<Rightarrow> pdict \<Rightarrow> bool" where
  "unexpected_keyword names kw = list_ex (\<lambda>k. k \<notin> set names) (map fst kw)"

definition required :: "pdict \<Rightarrow> string \<Rightarrow> exn + pval" where
  "required kw key = (case map_of kw key of None \<Rightarrow> Inl TypeError | Some v \<Rightarrow> Inr v)"

definition call_apply_gradient :: "transformer \<Rightarrow> pdict \<Rightarrow> exn + transformer" where
  "call_apply_gradient t kw =
     (if unexpected_keyword [''start_color'', ''end_color'', ''direction''] kw then Inl TypeError
      else
        bind_exn (required kw ''start_color'') (\<lambda>v1.
        bind_exn (required kw ''end_color'') (\<lambda>v2.
        bind_exn (as_str v1) (\<lambda>start_color.
        bind_exn (as_str v2) (\<lambda>end_color.
        bind_exn (as_str (dict_get kw ''direction'' (PStr ''horizontal''))) (\<lambda>direction.
        apply_gradient t start_color end_color direction))))))"

definition call_apply_texture :: "extern \<Rightarrow> transformer \<Rightarrow> pdict \<Rightarrow> exn + transformer" where
  "call_apply_texture ext t kw =
     (if unexpected_keyword [''texture_type'', ''opacity''] kw then Inl TypeError
      else
        bind_exn (as_str (dict_get kw ''texture_type'' (PStr ''noise''))) (\<lambda>texture_type.
        bind_exn (as_num (dict_get kw ''opacity'' (PNum (to_double (2 / 10))))) (\<lambda>opacity.
        apply_texture ext t texture_type opacity)))"

definition call_apply_overlay :: "transformer \<Rightarrow> pdict \<Rightarrow> exn + transformer" where
  "call_apply_overlay t kw =
     (if unexpected_keyword [''color'', ''opacity''] kw then Inl TypeError
      else
        bind_exn (required kw ''color'') (\<lambda>v.
        bind_exn (as_str v) (\<lambda>color.
        bind_exn (as_num (dict_get kw ''opacity'' (PNum (to_double (3 / 10))))) (\<lambda>opacity.
        apply_overlay t color opacity))))"

subsection \<open>The chain of effects\<close>

text \<open>One turn of the loop of \<^verbatim>\<open>apply_effects\<close>: an entry of the dictionary.\<close>

definition apply_effect :: "extern \<Rightarrow> transformer \<Rightarrow> string \<times> pdict \<Rightarrow> exn + transformer" where
  "apply_effect ext t entry =
     (let effect = fst entry; params = snd entry in
      if effect = ''blur''
      then bind_exn (as_int (dict_get params ''radius'' (PInt 2))) (\<lambda>radius.
           apply_blur ext t radius)
      else if effect = ''shadow''
      then bind_exn (as_pair (dict_get params ''offset'' (PPair 5 5))) (\<lambda>offset.
           bind_exn (as_str (dict_get params ''shadow_color'' (PStr ''#000000''))) (\<lambda>shadow_color.
           bind_exn (as_int (dict_get params ''blur_radius'' (PInt 3))) (\<lambda>blur_radius.
           apply_drop_shadow ext t offset shadow_color blur_radius)))
      else if effect = ''border''
      then bind_exn (as_int (dict_get params ''width'' (PInt 2))) (\<lambda>width.
           bind_exn (as_str (dict_get params ''color'' (PStr ''#000000''))) (\<lambda>color.
           apply_border ext t width color))
      else if effect = ''glow''
      then bind_exn (as_int (dict_get params ''spread'' (PInt 20))) (\<lambda>spread.
           bind_exn (as_num (dict_get params ''intensity'' (PNum (1 / 2)))) (\<lambda>intensity.
           apply_glow ext t spread intensity))
      else Inr t)"

fun apply_effects :: "extern \<Rightarrow> transformer \<Rightarrow> (string \<times> pdict) list \<Rightarrow> exn + transformer" where
  "apply_effects ext t [] = Inr t"
| "apply_effects ext t (entry # rest) =
     bind_exn (apply_effect ext t entry) (\<lambda>t'. apply_effects ext t' rest)"

section \<open>The request handler\<close>

text \<open>
  The JSON body of a request: the three fields the validation asks for, each possibly
  absent; the numbers are taken after \<^verbatim>\<open>int(...)\<close>. A \<^verbatim>\<open>text\<close> field only makes
  the handler create a drawing object and draws nothing, so it is left out.
\<close>

record request =
  req_width :: "int option"
  req_height :: "int option"
  req_style :: "string option"

definition validate_banner_request :: "request \<Rightarrow> exn + int \<times> int \<times> string" where
  "validate_banner_request request_data =
     (case req_width request_data of
        None \<Rightarrow> Inl (ValueError ''Missing required field: width'')
      | Some width \<Rightarrow>
     (case req_height request_data of
        None \<Rightarrow> Inl (ValueError ''Missing required field: height'')
      | Some height \<Rightarrow>
     (case req_style request_data of
        None \<Rightarrow> Inl (ValueError ''Missing required field: style'')
      | Some style \<Rightarrow>
          if width \<le> 0 \<or> height \<le> 0
          then Inl (ValueError ''Width and height must be positive numbers'')
          else if width > 4000 \<or> height > 4000
          then Inl (ValueError ''Maximum dimensions exceeded (4000x4000)'')
          else Inr (width, height, style))))"

text \<open>
  The answers of the handler: the saved banner with the dimensions it reports, or a
  status with an error message.
\<close>

datatype response = Banner image int int | Failure nat string

fun handle_exn :: "exn \<Rightarrow> response" where
  "handle_exn (ValueError msg) = Failure 400 msg"
| "handle_exn e = Failure 500 ''Internal server error''"

text \<open>Lines 66 to 80 of the handler: the stages in their fixed order.\<close>

definition run_stages :: "extern \<Rightarrow> image \<Rightarrow> string \<Rightarrow> exn + transformer" where
  "run_stages ext im style =
     bind_exn (call_obj (getattr_StylePresets ext style (StaticMethod modern))) (\<lambda>style_preset.
     bind_exn (case gradient style_preset of None \<Rightarrow> Inr (BannerTransformer im)
               | Some kw \<Rightarrow> call_apply_gradient (BannerTransformer im) kw) (\<lambda>t1.
     bind_exn (case texture style_preset of None \<Rightarrow> Inr t1
               | Some kw \<Rightarrow> call_apply_texture ext t1 kw) (\<lambda>t2.
     bind_exn (case overlay style_preset of None \<Rightarrow> Inr t2
               | Some kw \<Rightarrow> call_apply_overlay t2 kw) (\<lambda>t3.
     (case effects style_preset of None \<Rightarrow> Inr t3
      | Some es \<Rightarrow> apply_effects ext t3 es)))))"

text \<open>
  The handler returns its answer together with the base image it has created, if it came
  that far: \<open>None\<close> says that \<^verbatim>\<open>Image.new\<close> was never reached.
\<close>

definition generate_banner :: "extern \<Rightarrow> request \<Rightarrow> response \<times> image option" where
  "generate_banner ext request_data =
     (case validate_banner_request request_data of
        Inl e \<Rightarrow> (handle_exn e, None)
      | Inr (width, height, style) \<Rightarrow>
          (let im = Image_new (nat width, nat height) (255, 255, 255, 0)
           in (case run_stages ext im style of
                 Inl e \<Rightarrow> (handle_exn e, Some im)
               | Inr t \<Rightarrow> (Banner (self_image t) width height, Some im))))"

section \<open>The style table of the helpers\<close>

datatype cval = CStr string | CBool bool | CInt int | CList "string list"

definition modern_config :: "(string \<times> cval) list" where
  "modern_config =
     [(''background_color'', CStr ''#4361ee''), (''gradient'', CBool True),
      (''gradient_colors'', CList [''#4361ee'', ''#3f37c9'']), (''shadow'', CBool True),
      (''border_radius'', CInt 10)]"

definition styles :: "(string \<times> (string \<times> cval) list) list" where
  "styles =
     [(''modern'', modern_config),
      (''vintage'',
         [(''background_color'', CStr ''#f4a261''), (''texture'', CBool True),
          (''border'', CBool True), (''border_color'', CStr ''#e76f51''),
          (''border_width'', CInt 5)]),
      (''minimalist'',
         [(''background_color'', CStr ''#ffffff''), (''stroke'', CBool True),
          (''stroke_color'', CStr ''#2b2d42''), (''stroke_width'', CInt 2)]),
      (''bold'',
         [(''background_color'', CStr ''#2b2d42''), (''gradient'', CBool True),
          (''gradient_colors'', CList [''#2b2d42'', ''#8d99ae'']), (''shadow'', CBool True)])]"

text \<open>\<^verbatim>\<open>styles.get(style, styles['modern'])\<close>\<close>

definition get_banner_style_config :: "string \<Rightarrow> (string \<times> cval) list" where
  "get_banner_style_config style =
     (case map_of styles style of None \<Rightarrow> modern_config | Some c \<Rightarrow> c)"

section \<open>Invariants and a concrete environment\<close>

text \<open>
  An environment for running the definitions on concrete inputs: filters that return
  their image unchanged and generators that always draw the same number.
\<close>

definition demo_ext :: extern where
  "demo_ext =
     \<lparr>GaussianBlur = (\<lambda>radius im. Inr im),
      GaussianBlur_L = (\<lambda>radius im. Inr im),
      Brightness_enhance = (\<lambda>factor im. Inr im),
      rectangle_outline = (\<lambda>p0 p1 ink width im. Inr im),
      np_randint = (\<lambda>k. 200),
      np_normal = (\<lambda>k. 127),
      random_randint = (\<lambda>k. 0),
      builtin_attr = (\<lambda>name. None)\<rparr>"

text \<open>The size of the image agrees with the width and height recorded at construction.\<close>

definition size_inv :: "transformer \<Rightarrow> bool" where
  "size_inv t = (isize (self_image t) = (self_width t, self_height t))"

text \<open>
  The blur and the outlined rectangle hand back an image of the size of their input,
  whenever they return. (The other filtered images pass through \<^verbatim>\<open>alpha_composite\<close>,
  which checks the sizes itself.)
\<close>

definition size_preserving :: "extern \<Rightarrow> bool" where
  "size_preserving ext =
     ((\<forall>r im im'. GaussianBlur ext r im = Inr im' \<longrightarrow> isize im' = isize im) \<and>
      (\<forall>p0 p1 ink w im im'.
          rectangle_outline ext p0 p1 ink w im = Inr im' \<longrightarrow> isize im' = isize im))"

text \<open>
  What a call leaves behind: if it returns, the invariant holds and the recorded width
  and height are the old ones. A call that raises has not assigned \<^verbatim>\<open>self.image\<close>.
\<close>

definition keeps_size :: "transformer \<Rightarrow> exn + transformer \<Rightarrow> bool" where
  "keeps_size t r =
     (case r of Inl e \<Rightarrow> True
      | Inr t' \<Rightarrow> size_inv t' \<and> self_width t' = self_width t \<and> self_height t' = self_height t)"

text \<open>A pixel of full alpha with channels in the byte range.\<close>

definition opaque_pixel :: "rgba \<Rightarrow> bool" where
  "opaque_pixel p = (case p of (r, g, b, a) \<Rightarrow> r \<le> 255 \<and> g \<le> 255 \<and> b \<le> 255 \<and> a = 255)"

definition pixel_alpha :: "rgba \<Rightarrow> nat" where
  "pixel_alpha p = snd (snd (snd p))"

text \<open>A canvas of one opaque pixel, and a fresh canvas of one pixel.\<close>

definition opaque_canvas :: transformer where
  "opaque_canvas = BannerTransformer \<lparr>isize = (1, 1), idata = [(10, 20, 30, 255)]\<rparr>"

definition fresh_canvas :: transformer where
  "fresh_canvas = BannerTransformer (Image_new (1, 1) (255, 255, 255, 0))"

section \<open>Auxiliary facts\<close>

subsection \<open>Rounding to a double\<close>

lemma round_half_even_error: "\<bar>of_int (round_half_even m) - m\<bar> \<le> 1 / 2"
  unfolding round_half_even_def Let_def
  using floor_correct [of m] by (auto simp: abs_le_iff)

lemma round_half_even_of_int: "round_half_even (of_int k) = k"
  by (simp add: round_half_even_def)

lemma double_exponent_le:
  assumes "x \<noteq> 0" and "\<bar>x\<bar> < 512"
  shows "double_exponent x \<le> - 44"
proof -
  have "log 2 \<bar>x\<bar> < 9"
    using assms by (subst log_less_iff) simp_all
  then have "\<lfloor>log 2 \<bar>x\<bar>\<rfloor> < 9"
    by (simp add: floor_less_iff)
  then show ?thesis
    by (simp add: double_exponent_def)
qed

lemma pow2_pos: "0 < pow2 z"
  by (simp add: pow2_def)

lemma pow2_neg: "z \<le> - 44 \<Longrightarrow> pow2 z = 1 / 2 ^ nat (- z) \<and> 44 \<le> nat (- z)"
  by (simp add: pow2_def)

lemma pow2_small:
  assumes "z \<le> - 44"
  shows "pow2 z \<le> 1 / 2 ^ 44"
proof -
  from pow2_neg [OF assms] have p: "pow2 z = 1 / 2 ^ nat (- z)" and n: "44 \<le> nat (- z)"
    by simp_all
  have "(2::real) ^ 44 \<le> 2 ^ nat (- z)"
    using n by (intro power_increasing) simp_all
  then show ?thesis
    unfolding p by (intro divide_left_mono) simp_all
qed

lemma to_double_error:
  assumes "\<bar>x\<bar> < 512"
  shows "\<bar>to_double x - x\<bar> \<le> 1 / 2 ^ 45"
proof (cases "x = 0")
  case True
  then show ?thesis by (simp add: to_double_def)
next
  case False
  define q where "q = pow2 (double_exponent x)"
  have q: "0 < q" "q \<le> 1 / 2 ^ 44"
    using pow2_pos pow2_small [OF double_exponent_le [OF False assms]] by (simp_all add: q_def)
  define m where "m = x / q"
  have x: "m * q = x" using q(1) by (simp add: m_def)
  have td: "to_double x = of_int (round_half_even m) * q"
    using False by (simp add: to_double_def q_def m_def)
  have "to_double x - x = of_int (round_half_even m) * q - m * q"
    by (simp only: td x)
  also have "\<dots> = (of_int (round_half_even m) - m) * q"
    by (simp add: algebra_simps)
  finally have "to_double x - x = (of_int (round_half_even m) - m) * q" .
  then have "\<bar>to_double x - x\<bar> = \<bar>of_int (round_half_even m) - m\<bar> * q"
    using q(1) by (simp add: abs_mult)
  also have "\<dots> \<le> (1 / 2) * q"
    using round_half_even_error [of m] q(1) by (intro mult_right_mono) simp_all
  also have "\<dots> \<le> (1 / 2) * (1 / 2 ^ 44)"
    using q(2) by (intro mult_left_mono) simp_all
  finally show ?thesis by simp
qed

lemma to_double_dyadic:
  assumes "n \<le> 44" and "\<bar>of_int k / 2 ^ n\<bar> < (512::real)"
  shows "to_double (of_int k / 2 ^ n) = of_int k / 2 ^ n"
proof (cases "k = 0")
  case True
  then show ?thesis by (simp add: to_double_def)
next
  case False
  define x :: real where "x = of_int k / 2 ^ n"
  have x0: "x \<noteq> 0" using False by (simp add: x_def)
  define N where "N = nat (- double_exponent x)"
  have p: "pow2 (double_exponent x) = 1 / 2 ^ N" and N: "44 \<le> N"
    using pow2_neg [OF double_exponent_le [OF x0]] assms(2) by (simp_all add: x_def N_def)
  have split: "(2::real) ^ N = 2 ^ n * 2 ^ (N - n)"
    using assms(1) N by (simp add: power_add [symmetric])
  have "x / pow2 (double_exponent x) = x * 2 ^ N"
    by (simp add: p)
  also have "\<dots> = of_int k / 2 ^ n * (2 ^ n * 2 ^ (N - n))"
    by (simp only: x_def split)
  also have "\<dots> = of_int (k * 2 ^ (N - n))"
    by simp
  finally have m: "x / pow2 (double_exponent x) = of_int (k * 2 ^ (N - n))" .
  have "to_double x
      = of_int (round_half_even (x / pow2 (double_exponent x))) * pow2 (double_exponent x)"
    using x0 by (simp add: to_double_def)
  also have "\<dots> = of_int (round_half_even (of_int (k * 2 ^ (N - n)))) * pow2 (double_exponent x)"
    by (simp only: m)
  also have "\<dots> = of_int (k * 2 ^ (N - n)) * (1 / 2 ^ N)"
    by (simp only: round_half_even_of_int p)
  also have "\<dots> = x"
    by (simp add: x_def split)
  finally show ?thesis by (simp add: x_def)
qed

lemma to_double_0: "to_double 0 = 0"
  by (simp add: to_double_def)

lemma to_double_of_nat: "n < 512 \<Longrightarrow> to_double (real n) = real n"
  using to_double_dyadic [of 0 "int n"] by simp

lemma to_double_byte: "n \<le> 255 \<Longrightarrow> to_double (real n) = real n"
  by (simp add: to_double_of_nat)

lemma to_double_1: "to_double 1 = 1"
  using to_double_of_nat [of 1] by simp

lemma to_double_numeral: "(numeral w :: nat) < 512 \<Longrightarrow> to_double (numeral w) = numeral w"
  using to_double_of_nat [of "numeral w"] by simp

lemma to_double_half: "\<bar>of_int k / 2\<bar> < (512::real) \<Longrightarrow> to_double (of_int k / 2) = of_int k / 2"
  using to_double_dyadic [of 1 k] by simp

lemma to_double_quarter: "\<bar>of_int k / 4\<bar> < (512::real) \<Longrightarrow> to_double (of_int k / 4) = of_int k / 4"
  using to_double_dyadic [of 2 k] by simp

lemma trunc_bounds:
  assumes "\<bar>s - x\<bar> \<le> d" and "0 \<le> x" and "d < 1"
  shows "0 \<le> py_int s" and "real_of_int (py_int s) \<le> x + d"
    and "x - 1 - d < real_of_int (py_int s)"
proof -
  have s: "x - d \<le> s" "s \<le> x + d" using assms(1) by (simp_all add: abs_le_iff)
  have pos: "py_int s = \<lfloor>s\<rfloor>" if "0 \<le> s"
    using that by (simp add: py_int_def)
  have neg: "py_int s = 0" if "\<not> 0 \<le> s"
  proof -
    have "\<lceil>s\<rceil> = 0" using that s assms by (intro ceiling_unique) simp_all
    with that show ?thesis by (simp add: py_int_def)
  qed
  show "0 \<le> py_int s"
    using pos neg by (cases "0 \<le> s") simp_all
  show "real_of_int (py_int s) \<le> x + d"
  proof (cases "0 \<le> s")
    case True
    then show ?thesis unfolding pos [OF True] using s of_int_floor_le [of s] by linarith
  next
    case False
    then show ?thesis unfolding neg [OF False] using assms s by simp
  qed
  show "x - 1 - d < real_of_int (py_int s)"
  proof (cases "0 \<le> s")
    case True
    then show ?thesis
      unfolding pos [OF True] using s real_of_int_floor_add_one_gt [of s] by linarith
  next
    case False
    then show ?thesis unfolding neg [OF False] using assms s by simp
  qed
qed

lemma to_double_bounds:
  assumes "\<bar>x\<bar> < 512"
  shows "x - 1 / 2 ^ 45 \<le> to_double x" and "to_double x \<le> x + 1 / 2 ^ 45"
proof -
  from to_double_error [OF assms]
  have "to_double x - x \<le> 1 / 2 ^ 45" "- (to_double x - x) \<le> 1 / 2 ^ 45"
    by (simp_all only: abs_le_iff)
  then show "x - 1 / 2 ^ 45 \<le> to_double x" and "to_double x \<le> x + 1 / 2 ^ 45"
    by linarith+
qed

lemma to_double_quarter_1: "to_double (1 / 4) = 1 / 4"
  using to_double_quarter [of 1] by simp

lemma to_double_quarter_3: "to_double (3 / 4) = 3 / 4"
  using to_double_quarter [of 3] by simp

lemma to_double_half_5: "to_double (5 / 2) = 5 / 2"
  using to_double_half [of 5] by simp

lemma to_double_half_15: "to_double (15 / 2) = 15 / 2"
  using to_double_half [of 15] by simp

lemma to_double_half_25: "to_double (25 / 2) = 25 / 2"
  using to_double_half [of 25] by simp

subsection \<open>Colours, pixels and images\<close>

lemma hex_digit_lt: "hex_digit c = Some x \<Longrightarrow> x < 16"
  by (auto simp: hex_digit_def Let_def split: if_splits)

lemma int16_le: "int16 s = Inr v \<Longrightarrow> v \<le> 255"
  by (induction s rule: int16.induct) (auto split: option.splits dest!: hex_digit_lt)

lemma hex_to_rgb_le:
  "hex_to_rgb color = Inr (r, g, b) \<Longrightarrow> r \<le> 255 \<and> g \<le> 255 \<and> b \<le> 255"
  by (auto simp: hex_to_rgb_def split: sum.splits dest: int16_le)

lemma clip8_byte: "n \<le> 255 \<Longrightarrow> clip8 (int n) = n"
  by (simp add: clip8_def)

lemma composite_pixel_transparent: "composite_pixel p (r, g, b, 0) = p"
  by (cases p) simp

lemma div_between:
  fixes x n k :: nat
  shows "n * k \<le> x \<Longrightarrow> x < n * k + n \<Longrightarrow> x div n = k"
  by (rule div_nat_eqI) simp_all

lemma shift_channel:
  fixes r :: nat
  assumes "r \<le> 255"
  shows "SHIFTFORDIV255 (r * 32640 + 16384) div 128 = r"
proof -
  define q where "q = r div 2"
  define m where "m = r mod 2"
  have r: "r = 2 * q + m" by (simp add: q_def m_def)
  have m: "m < 2" by (simp add: m_def)
  have 1: "(r * 32640 + 16384) div 256 = 255 * q + 127 * m + 64"
    using m by (intro div_between) (simp_all add: r)
  show ?thesis
  proof (cases "q + m \<le> 64")
    case True
    have "(255 * q + 127 * m + 64 + (r * 32640 + 16384)) div 256 = 128 * r + 64"
      using True m by (intro div_between) (simp_all add: r)
    moreover have "(128 * r + 64) div 128 = r"
      by (rule div_between) simp_all
    ultimately show ?thesis by (simp add: SHIFTFORDIV255_def 1)
  next
    case False
    have "q \<le> 127" using assms r by simp
    then have "(255 * q + 127 * m + 64 + (r * 32640 + 16384)) div 256 = 128 * r + 63"
      using False m by (intro div_between) (simp_all add: r)
    moreover have "(128 * r + 63) div 128 = r"
      by (rule div_between) simp_all
    ultimately show ?thesis by (simp add: SHIFTFORDIV255_def 1)
  qed
qed

lemma shift_alpha: "SHIFTFORDIV255 65153 = 255"
  by (simp add: SHIFTFORDIV255_def)

lemma composite_pixel_opaque:
  "r \<le> 255 \<Longrightarrow> g \<le> 255 \<Longrightarrow> b \<le> 255 \<Longrightarrow> composite_pixel p (r, g, b, 255) = (r, g, b, 255)"
  by (cases p) (simp add: shift_channel shift_alpha)

lemma map2_replicate_right:
  "length xs = n \<Longrightarrow> map2 f xs (replicate n c) = map (\<lambda>x. f x c) xs"
  by (induction xs arbitrary: n) auto

lemma index_in_canvas:
  fixes i w h :: nat
  assumes "i < w * h"
  shows "i mod w < w" and "i div w < h"
proof -
  from assms have "0 < w" by (cases w) auto
  then show "i mod w < w" by simp
  from assms show "i div w < h"
    by (simp add: less_mult_imp_div_less mult.commute)
qed

lemma overlay_image_flat:
  "overlay_image w h rgb opacity =
     Image_new (w, h)
       (clip8 (int (fst rgb)), clip8 (int (fst (snd rgb))), clip8 (int (snd (snd rgb))),
        clip8 (py_int (to_double (255 * opacity))))" (is "_ = Image_new _ ?ink")
proof (rule raster.equality)
  show "isize (overlay_image w h rgb opacity) = isize (Image_new (w, h) ?ink)"
    by (simp add: overlay_image_def rectangle_fill_def Image_new_def)
  show "idata (overlay_image w h rgb opacity) = idata (Image_new (w, h) ?ink)"
  proof (rule nth_equalityI)
    show "length (idata (overlay_image w h rgb opacity)) = length (idata (Image_new (w, h) ?ink))"
      by (simp add: overlay_image_def rectangle_fill_def Image_new_def)
  next
    fix i assume "i < length (idata (overlay_image w h rgb opacity))"
    then have i: "i < w * h"
      by (simp add: overlay_image_def rectangle_fill_def Image_new_def)
    from index_in_canvas [OF i] have "i mod w \<le> w" "i div w \<le> h" by simp_all
    with i show "idata (overlay_image w h rgb opacity) ! i = idata (Image_new (w, h) ?ink) ! i"
      by (simp add: overlay_image_def rectangle_fill_def Image_new_def nth_enumerate_eq)
  qed
  show "raster.more (overlay_image w h rgb opacity) = raster.more (Image_new (w, h) ?ink)"
    by simp
qed


lemma bind_exn_Inr: "bind_exn r f = Inr y \<longleftrightarrow> (\<exists>v. r = Inr v \<and> f v = Inr y)"
  by (cases r) auto

lemma alpha_composite_size:
  "alpha_composite a b = Inr c \<Longrightarrow> isize c = isize a \<and> isize b = isize a"
  by (auto simp: alpha_composite_def split: if_splits)

lemma isize_gradient_image: "isize (gradient_image w h s e d) = (w, h)"
  by (simp add: gradient_image_def)


lemma clip8_le: "clip8 v \<le> 255"
  unfolding clip8_def by auto

lemma composite_over_opaque: "opaque_pixel p \<Longrightarrow> composite_pixel d p = p"
  by (cases p) (simp add: opaque_pixel_def composite_pixel_opaque)

lemma composite_over_transparent: "pixel_alpha p = 0 \<Longrightarrow> composite_pixel d p = d"
  by (cases p) (simp add: pixel_alpha_def composite_pixel_transparent)

lemma keeps_sizeI:
  "(\<And>t'. r = Inr t' \<Longrightarrow>
      size_inv t' \<and> self_width t' = self_width t \<and> self_height t' = self_height t)
   \<Longrightarrow> keeps_size t r"
  by (auto simp: keeps_size_def split: sum.splits)

lemma size_preserving_blur:
  "size_preserving ext \<Longrightarrow> GaussianBlur ext r im = Inr im' \<Longrightarrow> isize im' = isize im"
  by (simp add: size_preserving_def)

lemma size_preserving_outline:
  "size_preserving ext \<Longrightarrow> rectangle_outline ext p0 p1 ink w im = Inr im'
   \<Longrightarrow> isize im' = isize im"
  unfolding size_preserving_def by blast

lemma hex_demo: "hex_to_rgb ''#f4a261'' = Inr (244, 162, 97)"
  by (simp add: hex_to_rgb_def slice2_def hex_digit_def)

lemma hex_red: "hex_to_rgb ''#ff0000'' = Inr (255, 0, 0)"
  by (simp add: hex_to_rgb_def slice2_def hex_digit_def)

lemma hex_blue: "hex_to_rgb ''#0000ff'' = Inr (0, 0, 255)"
  by (simp add: hex_to_rgb_def slice2_def hex_digit_def)

lemma gradient_image_wf: "wf_image (gradient_image w h s e d)"
  by (simp add: wf_image_def gradient_image_def)

lemma gradient_image_opaque: "list_all opaque_pixel (idata (gradient_image w h s e d))"
  by (simp add: gradient_image_def list_all_iff opaque_pixel_def Let_def clip8_le)

lemma linspace_single: "linspace 0 1 1 = [0]"
  by (simp add: linspace_def to_double_0 to_double_1)

lemma gradient_channel_zero: "c1 \<le> 255 \<Longrightarrow> clip8 (gradient_channel c1 c2 0) = c1"
  by (simp add: gradient_channel_def py_int_def clip8_def to_double_0 to_double_1 to_double_byte)

lemma linspace_single_Suc: "linspace 0 1 (Suc 0) = [0]"
  by (simp add: linspace_def to_double_0 to_double_1)

lemma gradient_red_pixel:
  "gradient_image (Suc 0) (Suc 0) (255, 0, 0) (0, 0, 255) ''horizontal''
     = \<lparr>isize = (Suc 0, Suc 0), idata = [(255, 0, 0, 255)]\<rparr>"
  by (simp add: gradient_image_def gradient_factor_def Let_def linspace_single_Suc
      gradient_channel_zero)

lemma alpha_byte_0: "clip8 (py_int 0) = 0"
  by (simp add: py_int_def clip8_def)

lemma alpha_byte_255: "clip8 (py_int 255) = 255"
  by (simp add: py_int_def clip8_def)

section \<open>Properties of the specification\<close>

text \<open>
  C1. A style name that is no preset should resolve to the modern plan, and the pipeline
  should then produce what style \<open>modern\<close> produces. The table of the helpers does so
  for every name. The handler looks the name up among the attributes of the class
  \<^verbatim>\<open>StylePresets\<close>: for the name \<open>__doc__\<close> it finds the docstring of the class,
  calls it, and the request ends with status 500 instead of the modern banner.
\<close>

theorem dunder_doc_style_fails:
  "fst (generate_banner ext
          \<lparr>req_width = Some 400, req_height = Some 200, req_style = Some ''__doc__''\<rparr>)
     = Failure 500 ''Internal server error''
   \<and> get_banner_style_config ''__doc__'' = get_banner_style_config ''modern''"
  by (simp add: generate_banner_def validate_banner_request_def run_stages_def
      getattr_StylePresets_def StylePresets_dict_def get_banner_style_config_def styles_def)

text \<open>
  For a name that neither the body of the class nor Python binds on the class, the
  handler does run the modern plan.
\<close>

lemma unbound_style_runs_modern:
  assumes "StylePresets_dict style = None" and "builtin_attr ext style = None"
  shows "generate_banner ext \<lparr>req_width = w, req_height = h, req_style = Some style\<rparr>
       = generate_banner ext \<lparr>req_width = w, req_height = h, req_style = Some ''modern''\<rparr>"
proof -
  have m: "StylePresets_dict ''modern'' = Some (StaticMethod modern)"
    by (simp add: StylePresets_dict_def)
  have rs: "run_stages ext im style = run_stages ext im ''modern''" for im
    by (simp add: run_stages_def getattr_StylePresets_def assms m)
  show ?thesis
    by (simp add: generate_banner_def validate_banner_request_def rs split: option.splits)
qed

text \<open>
  C2. Each of the four presets should run to completion and apply the layers it declares.
  The vintage preset passes its texture dictionary, with the key \<open>type\<close>, as keyword
  arguments to \<^verbatim>\<open>apply_texture\<close>, whose parameter is called \<open>texture_type\<close>: the call
  raises before any layer is applied, and the request ends with status 500.
\<close>

theorem vintage_preset_fails:
  "fst (generate_banner ext
          \<lparr>req_width = Some 400, req_height = Some 200, req_style = Some ''vintage''\<rparr>)
     = Failure 500 ''Internal server error''"
  by (simp add: generate_banner_def validate_banner_request_def run_stages_def
      getattr_StylePresets_def StylePresets_dict_def vintage_def call_apply_texture_def
      unexpected_keyword_def)

text \<open>
  C3, as stated: the gradient buffer is the top operand of the composite. On a canvas of
  one opaque pixel the code keeps the pixel of the canvas, whereas a gradient on top
  would replace it by the start colour.
\<close>

theorem gradient_on_top_counterexample:
  "apply_gradient opaque_canvas ''#ff0000'' ''#0000ff'' ''horizontal''
     \<noteq> spec_apply_gradient opaque_canvas ''#ff0000'' ''#0000ff'' ''horizontal''"
proof -
  have code: "apply_gradient opaque_canvas ''#ff0000'' ''#0000ff'' ''horizontal''
      = Inr opaque_canvas"
    by (simp add: apply_gradient_def hex_red hex_blue opaque_canvas_def BannerTransformer_def
        gradient_red_pixel alpha_composite_def SHIFTFORDIV255_def)
  have spec: "spec_apply_gradient opaque_canvas ''#ff0000'' ''#0000ff'' ''horizontal''
      = Inr (BannerTransformer \<lparr>isize = (1, 1), idata = [(255, 0, 0, 255)]\<rparr>)"
    by (simp add: spec_apply_gradient_def hex_red hex_blue opaque_canvas_def
        BannerTransformer_def gradient_red_pixel alpha_composite_def SHIFTFORDIV255_def)
  show ?thesis
    unfolding code spec by (simp add: opaque_canvas_def BannerTransformer_def)
qed

text \<open>
  C3, amended: \<^verbatim>\<open>apply_gradient\<close> builds a full-canvas, fully opaque gradient buffer and
  composites the existing canvas over it: the gradient is the bottom operand, a
  background. Where the canvas is opaque its pixel stays, where it is transparent the
  gradient shows.
\<close>

theorem gradient_is_backdrop:
  assumes "size_inv t" and "wf_image (self_image t)"
    and "hex_to_rgb start_color = Inr s" and "hex_to_rgb end_color = Inr e"
  shows "\<exists>g im. g = gradient_image (self_width t) (self_height t) s e direction
          \<and> isize g = (self_width t, self_height t) \<and> wf_image g
          \<and> list_all opaque_pixel (idata g)
          \<and> alpha_composite g (self_image t) = Inr im
          \<and> apply_gradient t start_color end_color direction = Inr (t\<lparr>self_image := im\<rparr>)
          \<and> (\<forall>i < self_width t * self_height t.
                opaque_pixel (idata (self_image t) ! i)
                \<longrightarrow> idata im ! i = idata (self_image t) ! i)
          \<and> (\<forall>i < self_width t * self_height t.
                pixel_alpha (idata (self_image t) ! i) = 0 \<longrightarrow> idata im ! i = idata g ! i)"
proof -
  let ?g = "gradient_image (self_width t) (self_height t) s e direction"
  let ?im = "\<lparr>isize = isize ?g, idata = map2 composite_pixel (idata ?g) (idata (self_image t))\<rparr>"
  have sz: "isize ?g = isize (self_image t)"
    using assms(1) by (simp add: size_inv_def isize_gradient_image)
  have comp: "alpha_composite ?g (self_image t) = Inr ?im"
    by (simp add: alpha_composite_def sz)
  have len: "length (idata ?g) = self_width t * self_height t"
    "length (idata (self_image t)) = self_width t * self_height t"
    using assms(1,2) by (simp_all add: gradient_image_def wf_image_def size_inv_def)
  have px: "idata ?im ! i = composite_pixel (idata ?g ! i) (idata (self_image t) ! i)"
    if "i < self_width t * self_height t" for i
    using that len by simp
  have ap: "apply_gradient t start_color end_color direction = Inr (t\<lparr>self_image := ?im\<rparr>)"
    by (simp add: apply_gradient_def assms(3,4) comp)
  have top: "idata ?im ! i = idata (self_image t) ! i"
    if "i < self_width t * self_height t" "opaque_pixel (idata (self_image t) ! i)" for i
    unfolding px [OF that(1)] by (rule composite_over_opaque [OF that(2)])
  have bot: "idata ?im ! i = idata ?g ! i"
    if "i < self_width t * self_height t" "pixel_alpha (idata (self_image t) ! i) = 0" for i
    unfolding px [OF that(1)] by (rule composite_over_transparent [OF that(2)])
  show ?thesis
  proof (rule exI [of _ ?g], rule exI [of _ ?im], intro conjI allI impI)
    show "?g = ?g" by (rule refl)
    show "isize ?g = (self_width t, self_height t)" by (rule isize_gradient_image)
    show "wf_image ?g" by (rule gradient_image_wf)
    show "list_all opaque_pixel (idata ?g)" by (rule gradient_image_opaque)
    show "alpha_composite ?g (self_image t) = Inr ?im" by (rule comp)
    show "apply_gradient t start_color end_color direction = Inr (t\<lparr>self_image := ?im\<rparr>)"
      by (rule ap)
  next
    fix i
    assume "i < self_width t * self_height t" "opaque_pixel (idata (self_image t) ! i)"
    then show "idata ?im ! i = idata (self_image t) ! i" by (rule top)
  next
    fix i
    assume "i < self_width t * self_height t" "pixel_alpha (idata (self_image t) ! i) = 0"
    then show "idata ?im ! i = idata ?g ! i" by (rule bot)
  qed
qed

theorem gradient_is_backdrop_witness:
  "size_inv opaque_canvas \<and> wf_image (self_image opaque_canvas)
   \<and> (\<exists>im. apply_gradient opaque_canvas ''#ff0000'' ''#0000ff'' ''horizontal''
             = Inr (opaque_canvas\<lparr>self_image := im\<rparr>))
   \<and> apply_gradient opaque_canvas ''#ff0000'' ''#0000ff'' ''horizontal'' = Inr opaque_canvas"
proof (intro conjI)
  show h1: "size_inv opaque_canvas"
    by (simp add: size_inv_def opaque_canvas_def BannerTransformer_def)
  show h2: "wf_image (self_image opaque_canvas)"
    by (simp add: wf_image_def opaque_canvas_def BannerTransformer_def)
  from gradient_is_backdrop [OF h1 h2 hex_red hex_blue, of "''horizontal''"]
  show "\<exists>im. apply_gradient opaque_canvas ''#ff0000'' ''#0000ff'' ''horizontal''
             = Inr (opaque_canvas\<lparr>self_image := im\<rparr>)"
    by (elim exE conjE) (rule exI, assumption)
  show "apply_gradient opaque_canvas ''#ff0000'' ''#0000ff'' ''horizontal'' = Inr opaque_canvas"
    by (simp add: apply_gradient_def hex_red hex_blue opaque_canvas_def BannerTransformer_def
        gradient_red_pixel alpha_composite_def SHIFTFORDIV255_def)
qed

text \<open>
  C4, as stated: each channel is the rounded value of the interpolation. Both
  interpolations of the code truncate: between 0 and 1 at factor 3/4, where every float
  operation is exact, they give 0, and the rounded value is 1.
\<close>

theorem interpolation_round_counterexample:
  "gradient_channel 0 1 (3 / 4) \<noteq> spec_interpolate_channel 0 1 (3 / 4)
   \<and> interpolate_channel 0 1 (3 / 4) \<noteq> spec_interpolate_channel 0 1 (3 / 4)"
  by (simp add: gradient_channel_def interpolate_channel_def spec_interpolate_channel_def
      py_int_def round_def to_double_0 to_double_quarter_1 to_double_quarter_3)

text \<open>
  C4, amended: for channels in the byte range and a factor between 0 and 1, each output
  channel is the interpolation \<open>c1 * (1 - factor) + c2 * factor\<close>, evaluated in floats,
  truncated to an integer (not rounded). It is at most the exact value plus \<open>2 ^ - 36\<close>
  and more than the exact value minus \<open>1 + 2 ^ - 36\<close>, and it lies in the byte range,
  so nothing is clamped. This holds for the formula of the gradient loop and for the
  formula of the helper.
\<close>

theorem interpolation_truncates:
  assumes "c1 \<le> 255" "c2 \<le> 255" "0 \<le> factor" "factor \<le> 1"
  shows "0 \<le> gradient_channel c1 c2 factor \<and> gradient_channel c1 c2 factor \<le> 255
       \<and> real_of_int (gradient_channel c1 c2 factor)
           \<le> of_nat c1 * (1 - factor) + of_nat c2 * factor + 1 / 2 ^ 36
       \<and> of_nat c1 * (1 - factor) + of_nat c2 * factor - 1 - 1 / 2 ^ 36
           < real_of_int (gradient_channel c1 c2 factor)
       \<and> 0 \<le> interpolate_channel c1 c2 factor \<and> interpolate_channel c1 c2 factor \<le> 255
       \<and> real_of_int (interpolate_channel c1 c2 factor)
           \<le> of_nat c1 * (1 - factor) + of_nat c2 * factor + 1 / 2 ^ 36
       \<and> of_nat c1 * (1 - factor) + of_nat c2 * factor - 1 - 1 / 2 ^ 36
           < real_of_int (interpolate_channel c1 c2 factor)"
proof -
  define e :: real where "e = 1 / 2 ^ 45"
  define d :: real where "d = 1 / 2 ^ 36"
  have e: "0 \<le> e" "e \<le> 1 / 1000" "258 * e \<le> d" and d: "d < 1"
    by (simp_all add: e_def d_def)
  have tb: "x - e \<le> to_double x" "to_double x \<le> x + e" if "\<bar>x\<bar> < 512" for x
    unfolding e_def using to_double_bounds [OF that] by blast+
  define C1 C2 :: real where "C1 = of_nat c1" and "C2 = of_nat c2"
  have C: "0 \<le> C1" "C1 \<le> 255" "0 \<le> C2" "C2 \<le> 255"
    using assms by (simp_all add: C1_def C2_def)
  define u v w where "u = C1 * (1 - factor)" and "v = C2 * factor" and "w = C1 * factor"
  have u: "0 \<le> u" "u \<le> 255 * (1 - factor)"
  proof -
    show "0 \<le> u" using C assms by (simp add: u_def)
    show "u \<le> 255 * (1 - factor)"
      unfolding u_def using C assms by (intro mult_right_mono) simp_all
  qed
  have v: "0 \<le> v" "v \<le> 255 * factor"
  proof -
    show "0 \<le> v" using C assms by (simp add: v_def)
    show "v \<le> 255 * factor"
      unfolding v_def using C assms by (intro mult_right_mono) simp_all
  qed
  have w: "0 \<le> w" "w \<le> 255 * factor"
  proof -
    show "0 \<le> w" using C assms by (simp add: w_def)
    show "w \<le> 255 * factor"
      unfolding w_def using C assms by (intro mult_right_mono) simp_all
  qed
  have uw: "C1 = u + w" by (simp add: u_def w_def algebra_simps)
  have Ce: "C1 * e \<le> 255 * e" using C e by (intro mult_right_mono) simp_all
  have u2: "u \<le> 255 - 255 * factor" using u(2) by (simp add: algebra_simps)
  have x: "0 \<le> u + v" "u + v \<le> 255" using u(1) u2 v by linarith+
  define a where "a = to_double (1 - factor)"
  have "\<bar>1 - factor\<bar> < 512" using assms by (simp add: abs_less_iff)
  from tb [OF this] have a: "1 - factor - e \<le> a" "a \<le> 1 - factor + e"
    by (simp_all only: a_def)
  have hi: "C1 * a \<le> u + C1 * e"
    using mult_left_mono [OF a(2) C(1)] by (simp only: distrib_left u_def)
  have lo: "u - C1 * e \<le> C1 * a"
    using mult_left_mono [OF a(1) C(1)] by (simp only: right_diff_distrib u_def)
  have ca: "u - 255 * e \<le> C1 * a" "C1 * a \<le> u + 255 * e"
    using hi lo Ce by linarith+
  define p where "p = to_double (C1 * a)"
  have "\<bar>C1 * a\<bar> < 512" unfolding abs_less_iff using ca u(1) u2 e assms by linarith
  from tb [OF this] have "C1 * a - e \<le> p" "p \<le> C1 * a + e"
    by (simp_all only: p_def)
  then have p: "u - 256 * e \<le> p" "p \<le> u + 256 * e" using ca by linarith+
  define q where "q = to_double v"
  have "\<bar>v\<bar> < 512" unfolding abs_less_iff using v assms by linarith
  from tb [OF this] have q: "v - e \<le> q" "q \<le> v + e"
    by (simp_all only: q_def)
  define s where "s = to_double (p + q)"
  have "\<bar>p + q\<bar> < 512" unfolding abs_less_iff using p q x e by linarith
  from tb [OF this] have "p + q - e \<le> s" "s \<le> p + q + e"
    by (simp_all only: s_def)
  then have s: "\<bar>s - (u + v)\<bar> \<le> d" unfolding abs_le_iff using p q e by linarith
  have g: "gradient_channel c1 c2 factor = py_int s"
    by (simp only: gradient_channel_def s_def p_def q_def a_def v_def C1_def C2_def)
  have fd: "factor * (C2 - C1) = v - w" by (simp add: v_def w_def algebra_simps)
  define t where "t = to_double (v - w)"
  have "\<bar>v - w\<bar> < 512" unfolding abs_less_iff using v w assms by linarith
  from tb [OF this] have t: "v - w - e \<le> t" "t \<le> v - w + e"
    by (simp_all only: t_def)
  define s' where "s' = to_double (C1 + t)"
  have "\<bar>C1 + t\<bar> < 512" unfolding abs_less_iff using t uw x e by linarith
  from tb [OF this] have "C1 + t - e \<le> s'" "s' \<le> C1 + t + e"
    by (simp_all only: s'_def)
  then have s': "\<bar>s' - (u + v)\<bar> \<le> d" unfolding abs_le_iff using t uw e by linarith
  have h: "interpolate_channel c1 c2 factor = py_int s'"
    by (simp only: interpolate_channel_def s'_def t_def fd [symmetric] C1_def C2_def)
  have xe: "of_nat c1 * (1 - factor) + of_nat c2 * factor = u + v"
    by (simp only: u_def v_def C1_def C2_def)
  note gb = trunc_bounds [OF s x(1) d]
  note hb = trunc_bounds [OF s' x(1) d]
  have "real_of_int (py_int s) < 256" "real_of_int (py_int s') < 256"
    using gb(2) hb(2) x(2) d by linarith+
  then have "py_int s \<le> 255" "py_int s' \<le> 255" by simp_all
  with gb hb show ?thesis
    unfolding g h xe d_def by (intro conjI)
qed

theorem interpolation_truncates_witness:
  "(10::nat) \<le> 255 \<and> (20::nat) \<le> 255 \<and> (0::real) \<le> 1 / 4 \<and> (1 / 4 :: real) \<le> 1
   \<and> gradient_channel 10 20 (1 / 4) = 12 \<and> interpolate_channel 10 20 (1 / 4) = 12
   \<and> real_of_int (gradient_channel 10 20 (1 / 4)) \<le> 10 * (1 - 1 / 4) + 20 * (1 / 4) + 1 / 2 ^ 36"
  using interpolation_truncates [of 10 20 "1 / 4"]
  by (simp add: gradient_channel_def interpolate_channel_def py_int_def to_double_numeral
      to_double_quarter_3 to_double_half_5 to_double_half_15 to_double_half_25)

text \<open>
  C5, as stated: a texture kind other than noise, grain and paper falls back to the noise
  generator. With a generator that draws 200 for every pixel, the kind \<open>marble\<close> and the
  kind \<open>noise\<close> give different canvases.
\<close>

theorem unknown_texture_counterexample:
  "apply_texture demo_ext fresh_canvas ''marble'' 1
     \<noteq> apply_texture demo_ext fresh_canvas ''noise'' 1"
  by (simp add: apply_texture_def make_texture_def fresh_canvas_def BannerTransformer_def
      Image_new_def noise_texture_def convert_RGBA_def putalpha_def demo_ext_def
      alpha_composite_def to_double_numeral alpha_byte_255 SHIFTFORDIV255_def)

text \<open>
  C5, amended: for every texture kind other than noise, grain and paper,
  \<^verbatim>\<open>apply_texture\<close> does not fail and uses no generator: the texture is the blank
  buffer (black) with alpha \<^verbatim>\<open>int(255 * opacity)\<close>, composited over the canvas.
\<close>

theorem unknown_texture_is_blank:
  assumes "texture_type \<noteq> ''noise''" "texture_type \<noteq> ''grain''" "texture_type \<noteq> ''paper''"
    and "size_inv t"
  shows "\<exists>im. alpha_composite (self_image t)
                (Image_new (self_width t, self_height t)
                   (0, 0, 0, clip8 (py_int (to_double (255 * opacity)))))
              = Inr im
            \<and> apply_texture ext t texture_type opacity = Inr (t\<lparr>self_image := im\<rparr>)"
  using assms
  by (simp add: apply_texture_def make_texture_def putalpha_def Image_new_def
      alpha_composite_def size_inv_def)

theorem unknown_texture_is_blank_witness:
  "size_inv fresh_canvas
   \<and> apply_texture demo_ext fresh_canvas ''marble'' 1
       = Inr (BannerTransformer (Image_new (1, 1) (0, 0, 0, 255)))"
  using unknown_texture_is_blank [of "''marble''" fresh_canvas 1 demo_ext]
  by (simp add: size_inv_def fresh_canvas_def BannerTransformer_def Image_new_def
      alpha_composite_def to_double_numeral alpha_byte_255 SHIFTFORDIV255_def)

text \<open>
  C6. A request with a width or height that is not positive, or above the maximum of
  4000, fails with the \<^verbatim>\<open>ValueError\<close> of the dimension check (status 400), and the
  base image has not been created.
\<close>

theorem invalid_dimensions_rejected:
  assumes "width \<le> 0 \<or> height \<le> 0 \<or> 4000 < width \<or> 4000 < height"
  shows "generate_banner ext
           \<lparr>req_width = Some width, req_height = Some height, req_style = Some style\<rparr>
         = (Failure 400
              (if width \<le> 0 \<or> height \<le> 0 then ''Width and height must be positive numbers''
               else ''Maximum dimensions exceeded (4000x4000)''),
            None)"
  using assms by (auto simp: generate_banner_def validate_banner_request_def)

theorem invalid_dimensions_rejected_witness:
  "generate_banner demo_ext
     \<lparr>req_width = Some 0, req_height = Some 200, req_style = Some ''modern''\<rparr>
     = (Failure 400 ''Width and height must be positive numbers'', None)
   \<and> generate_banner demo_ext
     \<lparr>req_width = Some 400, req_height = Some 5000, req_style = Some ''modern''\<rparr>
     = (Failure 400 ''Maximum dimensions exceeded (4000x4000)'', None)"
  using invalid_dimensions_rejected [of 0 200 demo_ext "''modern''"]
    invalid_dimensions_rejected [of 400 5000 demo_ext "''modern''"]
  by simp

text \<open>
  C7. On every canvas, an overlay of opacity 0 leaves every pixel as it is, and an
  overlay of opacity 1 makes every pixel the colour of the overlay at alpha 255.
\<close>

theorem overlay_opacity_extremes:
  assumes "size_inv t" and "wf_image (self_image t)" and "hex_to_rgb color = Inr (r, g, b)"
  shows "apply_overlay t color 0 = Inr t
       \<and> apply_overlay t color 1
           = Inr (t\<lparr>self_image := Image_new (self_width t, self_height t) (r, g, b, 255)\<rparr>)"
proof -
  have byte: "r \<le> 255" "g \<le> 255" "b \<le> 255"
    using hex_to_rgb_le [OF assms(3)] by simp_all
  have sz: "isize (self_image t) = (self_width t, self_height t)"
    using assms(1) by (simp add: size_inv_def)
  have len: "length (idata (self_image t)) = self_width t * self_height t"
    using assms(2) sz by (simp add: wf_image_def)
  have same: "\<lparr>isize = (self_width t, self_height t), idata = idata (self_image t)\<rparr>
      = self_image t"
    using sz by (cases "self_image t") simp
  have zero: "apply_overlay t color 0 = Inr t"
    using same
    by (simp add: apply_overlay_def assms(3) overlay_image_flat clip8_byte byte to_double_0 alpha_byte_0
        alpha_composite_def Image_new_def sz map2_replicate_right [OF len]
        composite_pixel_transparent)
  have one: "apply_overlay t color 1
      = Inr (t\<lparr>self_image := Image_new (self_width t, self_height t) (r, g, b, 255)\<rparr>)"
    by (simp add: apply_overlay_def assms(3) overlay_image_flat clip8_byte byte to_double_numeral alpha_byte_255
        alpha_composite_def Image_new_def sz map2_replicate_right [OF len]
        composite_pixel_opaque map_replicate_const len)
  from zero one show ?thesis by simp
qed

theorem overlay_opacity_extremes_witness:
  "size_inv fresh_canvas \<and> wf_image (self_image fresh_canvas)
   \<and> apply_overlay fresh_canvas ''#f4a261'' 0 = Inr fresh_canvas
   \<and> apply_overlay fresh_canvas ''#f4a261'' 1
       = Inr (BannerTransformer (Image_new (1, 1) (244, 162, 97, 255)))"
  using overlay_opacity_extremes [of fresh_canvas "''#f4a261''" 244 162 97]
  by (simp add: hex_demo size_inv_def wf_image_def fresh_canvas_def BannerTransformer_def
      Image_new_def)

text \<open>
  C8. A gradient over a single column (horizontal) or a single row (any other direction)
  takes one sample, factor 0, without dividing by the zero width of the interval; the
  sole column or row is the start colour, and the gradient stage on a fresh canvas of
  one pixel yields exactly the start colour.
\<close>

theorem gradient_single_sample:
  assumes "hex_to_rgb start_color = Inr (r, g, b)" and "hex_to_rgb end_color = Inr e"
    and "direction \<noteq> ''horizontal''"
  shows "linspace 0 1 1 = [0]
       \<and> gradient_image 1 h (r, g, b) e ''horizontal'' = Image_new (1, h) (r, g, b, 255)
       \<and> gradient_image w 1 (r, g, b) e direction = Image_new (w, 1) (r, g, b, 255)
       \<and> apply_gradient (BannerTransformer (Image_new (1, 1) (255, 255, 255, 0)))
           start_color end_color ''horizontal''
           = Inr (BannerTransformer (Image_new (1, 1) (r, g, b, 255)))
       \<and> apply_gradient (BannerTransformer (Image_new (1, 1) (255, 255, 255, 0)))
           start_color end_color direction
           = Inr (BannerTransformer (Image_new (1, 1) (r, g, b, 255)))"
proof -
  have byte: "r \<le> 255" "g \<le> 255" "b \<le> 255"
    using hex_to_rgb_le [OF assms(1)] by simp_all
  have hfac: "gradient_factor (Suc 0) h ''horizontal'' y 0 = 0" for h y
    by (simp add: gradient_factor_def linspace_single_Suc)
  have vfac: "gradient_factor w (Suc 0) direction 0 x = 0" for w x
    using assms(3) by (simp add: gradient_factor_def linspace_single_Suc)
  have hor: "gradient_image 1 h (r, g, b) e ''horizontal'' = Image_new (1, h) (r, g, b, 255)"
    for h
  proof (rule raster.equality)
    show "idata (gradient_image 1 h (r, g, b) e ''horizontal'')
        = idata (Image_new (1, h) (r, g, b, 255))"
      by (rule nth_equalityI)
        (simp_all add: gradient_image_def Image_new_def Let_def hfac gradient_channel_zero byte)
  qed (simp_all add: gradient_image_def Image_new_def)
  have ver: "gradient_image w 1 (r, g, b) e direction = Image_new (w, 1) (r, g, b, 255)"
    for w
  proof (rule raster.equality)
    show "idata (gradient_image w 1 (r, g, b) e direction)
        = idata (Image_new (w, 1) (r, g, b, 255))"
      by (rule nth_equalityI)
        (simp_all add: gradient_image_def Image_new_def Let_def vfac gradient_channel_zero byte)
  qed (simp_all add: gradient_image_def Image_new_def)
  have g1: "gradient_image (Suc 0) (Suc 0) (r, g, b) e ''horizontal''
      = \<lparr>isize = (Suc 0, Suc 0), idata = [(r, g, b, 255)]\<rparr>"
    using hor [of 1] by (simp add: Image_new_def)
  have g2: "gradient_image (Suc 0) (Suc 0) (r, g, b) e direction
      = \<lparr>isize = (Suc 0, Suc 0), idata = [(r, g, b, 255)]\<rparr>"
    using ver [of 1] by (simp add: Image_new_def)
  have a1: "apply_gradient (BannerTransformer (Image_new (1, 1) (255, 255, 255, 0)))
           start_color end_color ''horizontal''
           = Inr (BannerTransformer (Image_new (1, 1) (r, g, b, 255)))"
    unfolding apply_gradient_def assms(1,2) bind_exn.simps
    by (simp add: BannerTransformer_def Image_new_def g1 alpha_composite_def)
  have a2: "apply_gradient (BannerTransformer (Image_new (1, 1) (255, 255, 255, 0)))
           start_color end_color direction
           = Inr (BannerTransformer (Image_new (1, 1) (r, g, b, 255)))"
    unfolding apply_gradient_def assms(1,2) bind_exn.simps
    by (simp add: BannerTransformer_def Image_new_def g2 alpha_composite_def)
  show ?thesis
    by (intro conjI) (rule linspace_single hor ver a1 a2)+
qed

theorem gradient_single_sample_witness:
  "apply_gradient (BannerTransformer (Image_new (1, 1) (255, 255, 255, 0)))
     ''#ff0000'' ''#0000ff'' ''horizontal''
     = Inr (BannerTransformer (Image_new (1, 1) (255, 0, 0, 255)))
   \<and> apply_gradient (BannerTransformer (Image_new (1, 1) (255, 255, 255, 0)))
     ''#ff0000'' ''#0000ff'' ''vertical''
     = Inr (BannerTransformer (Image_new (1, 1) (255, 0, 0, 255)))"
  using gradient_single_sample [of "''#ff0000''" 255 0 0 "''#0000ff''" "(0, 0, 255)" "''vertical''"]
  by (simp add: hex_red hex_blue)

text \<open>
  C9. Every operation of the transformer keeps the size of the image equal to the width
  and height recorded at construction, provided the blur and the outlined rectangle of
  the library return images of the size they were given.
\<close>

theorem operations_preserve_size:
  assumes "size_preserving ext" and "size_inv t"
  shows "keeps_size t (apply_gradient t start_color end_color direction)
       \<and> keeps_size t (apply_texture ext t texture_type opacity)
       \<and> keeps_size t (apply_overlay t color opacity)
       \<and> keeps_size t (apply_blur ext t radius)
       \<and> keeps_size t (apply_drop_shadow ext t offset shadow_color blur_radius)
       \<and> keeps_size t (apply_border ext t width color)
       \<and> keeps_size t (apply_glow ext t spread intensity)"
proof -
  have sz: "isize (self_image t) = (self_width t, self_height t)"
    using assms(2) by (simp add: size_inv_def)
  have 1: "keeps_size t (apply_gradient t start_color end_color direction)"
    by (rule keeps_sizeI)
      (auto simp: apply_gradient_def bind_exn_Inr size_inv_def isize_gradient_image
        dest!: alpha_composite_size)
  have 2: "keeps_size t (apply_texture ext t texture_type opacity)"
    by (rule keeps_sizeI)
      (auto simp: apply_texture_def bind_exn_Inr size_inv_def sz dest!: alpha_composite_size)
  have 3: "keeps_size t (apply_overlay t color opacity)"
    by (rule keeps_sizeI)
      (auto simp: apply_overlay_def bind_exn_Inr size_inv_def sz dest!: alpha_composite_size)
  have 4: "keeps_size t (apply_blur ext t radius)"
    by (rule keeps_sizeI)
      (auto simp: apply_blur_def bind_exn_Inr size_inv_def sz
        dest!: size_preserving_blur [OF assms(1)])
  have 5: "keeps_size t (apply_drop_shadow ext t offset shadow_color blur_radius)"
    by (rule keeps_sizeI)
      (auto simp: apply_drop_shadow_def bind_exn_Inr size_inv_def sz Image_new_def
        dest!: alpha_composite_size)
  have 6: "keeps_size t (apply_border ext t width color)"
    by (rule keeps_sizeI)
      (auto simp: apply_border_def bind_exn_Inr size_inv_def sz
        dest!: size_preserving_outline [OF assms(1)])
  have 7: "keeps_size t (apply_glow ext t spread intensity)"
    by (rule keeps_sizeI)
      (auto simp: apply_glow_def bind_exn_Inr size_inv_def sz dest!: alpha_composite_size)
  from 1 2 3 4 5 6 7 show ?thesis by simp
qed

theorem operations_preserve_size_witness:
  "size_preserving demo_ext \<and> size_inv fresh_canvas
   \<and> keeps_size fresh_canvas (apply_blur demo_ext fresh_canvas 2)
   \<and> apply_blur demo_ext fresh_canvas 2 = Inr fresh_canvas
   \<and> keeps_size fresh_canvas (apply_glow demo_ext fresh_canvas 20 (6 / 10))
   \<and> apply_glow demo_ext fresh_canvas 20 (6 / 10) = Inr fresh_canvas"
proof -
  have h: "size_preserving demo_ext" "size_inv fresh_canvas"
    by (simp_all add: size_preserving_def demo_ext_def size_inv_def fresh_canvas_def
        BannerTransformer_def Image_new_def)
  have "apply_blur demo_ext fresh_canvas 2 = Inr fresh_canvas"
    by (simp add: apply_blur_def demo_ext_def)
  moreover have "apply_glow demo_ext fresh_canvas 20 (6 / 10) = Inr fresh_canvas"
    by (simp add: apply_glow_def demo_ext_def alpha_composite_def fresh_canvas_def
        BannerTransformer_def Image_new_def)
  ultimately show ?thesis
    using h operations_preserve_size [OF h, where radius = 2 and spread = 20 and intensity = "6 / 10"]
    by simp
qed

text \<open>
  C10. An entry of the effects whose name is none of blur, shadow, border and glow is
  skipped: its turn of the loop returns the transformer unchanged, and the chain gives
  what it gives without the entry.
\<close>

theorem unknown_effect_skipped:
  assumes "effect \<noteq> ''blur''" "effect \<noteq> ''shadow''" "effect \<noteq> ''border''"
    "effect \<noteq> ''glow''"
  shows "apply_effect ext t (effect, params) = Inr t
       \<and> apply_effects ext t (before @ (effect, params) # rest)
           = apply_effects ext t (before @ rest)"
proof
  show skip: "apply_effect ext t (effect, params) = Inr t" for t
    using assms by (simp add: apply_effect_def)
  show "apply_effects ext t (before @ (effect, params) # rest)
          = apply_effects ext t (before @ rest)"
  proof (induction before arbitrary: t)
    case Nil
    show ?case by (simp add: skip)
  next
    case (Cons entry before)
    show ?case
      by (cases "apply_effect ext t entry") (simp_all add: Cons.IH)
  qed
qed

theorem unknown_effect_skipped_witness:
  "apply_effects demo_ext fresh_canvas [(''sepia'', [(''amount'', PInt 3)])] = Inr fresh_canvas"
  using unknown_effect_skipped [of "''sepia''" demo_ext fresh_canvas
      "[(''amount'', PInt 3)]" "[]" "[]"]
  by simp

end
